theory Spec2Isabelle
  imports Complex_Main
begin

section \<open>Floating-point values\<close>

text \<open>
  The program computes with Python floats (IEEE doubles). The embedding keeps the special
  values, because the code's own guard (\<^verbatim>\<open>np.isnan\<close>) is about them, and computes
  exactly on the finite ones: rounding, overflow and the sign of zero are not modelled.
\<close>

datatype fp = Fin real | PInf | NInf | NaN

fun isnan :: "fp \<Rightarrow> bool" where
  "isnan NaN = True"
| "isnan _ = False"

fun fneg :: "fp \<Rightarrow> fp" where
  "fneg (Fin a) = Fin (- a)"
| "fneg PInf = NInf"
| "fneg NInf = PInf"
| "fneg NaN = NaN"

fun fadd :: "fp \<Rightarrow> fp \<Rightarrow> fp" where
  "fadd (Fin a) (Fin b) = Fin (a + b)"
| "fadd NaN _ = NaN"
| "fadd _ NaN = NaN"
| "fadd PInf NInf = NaN"
| "fadd NInf PInf = NaN"
| "fadd PInf _ = PInf"
| "fadd _ PInf = PInf"
| "fadd NInf _ = NInf"
| "fadd _ NInf = NInf"

definition fsub :: "fp \<Rightarrow> fp \<Rightarrow> fp" where
  "fsub a b = fadd a (fneg b)"

text \<open>An infinity times a finite factor: the sign of the factor decides, and zero gives NaN.\<close>

definition inf_times :: "bool \<Rightarrow> real \<Rightarrow> fp" where
  "inf_times positive b =
     (if b = 0 then NaN else if (0 < b) = positive then PInf else NInf)"

fun fmul :: "fp \<Rightarrow> fp \<Rightarrow> fp" where
  "fmul (Fin a) (Fin b) = Fin (a * b)"
| "fmul NaN _ = NaN"
| "fmul _ NaN = NaN"
| "fmul PInf (Fin b) = inf_times True b"
| "fmul NInf (Fin b) = inf_times False b"
| "fmul (Fin a) PInf = inf_times True a"
| "fmul (Fin a) NInf = inf_times False a"
| "fmul PInf PInf = PInf"
| "fmul NInf NInf = PInf"
| "fmul PInf NInf = NInf"
| "fmul NInf PInf = NInf"

text \<open>
  Division as numpy and pandas do it on float arrays: no exception, a nonzero value over
  zero is an infinity and zero over zero is NaN.
\<close>

fun fdiv :: "fp \<Rightarrow> fp \<Rightarrow> fp" where
  "fdiv (Fin a) (Fin b) =
     (if b = 0 then (if a = 0 then NaN else if 0 < a then PInf else NInf)
      else Fin (a / b))"
| "fdiv NaN _ = NaN"
| "fdiv _ NaN = NaN"
| "fdiv (Fin a) _ = Fin 0"
| "fdiv PInf (Fin b) = (if 0 \<le> b then PInf else NInf)"
| "fdiv NInf (Fin b) = (if 0 \<le> b then NInf else PInf)"
| "fdiv _ _ = NaN"

fun fsqrt :: "fp \<Rightarrow> fp" where
  "fsqrt (Fin a) = (if a < 0 then NaN else Fin (sqrt a))"
| "fsqrt PInf = PInf"
| "fsqrt NInf = NaN"
| "fsqrt NaN = NaN"

definition fsum :: "fp list \<Rightarrow> fp" where
  "fsum xs = foldr fadd xs (Fin 0)"

section \<open>Exceptions\<close>

text \<open>
  A Python exception is its class and its message. The source raises \<^verbatim>\<open>ValueError\<close>
  inside its functions, numpy raises \<^verbatim>\<open>ValueError\<close> and \<^verbatim>\<open>IndexError\<close>, and the
  \<^verbatim>\<open>except Exception as e: raise Exception(f"...{str(e)}")\<close> at the end of each function
  replaces whatever was raised by a plain \<^verbatim>\<open>Exception\<close> that keeps only the message.
  The ticker and the numbers that the source formats into its messages are left out.
\<close>

datatype py_exception = ValueError string | IndexError string | Exception string

fun exn_kind :: "py_exception \<Rightarrow> string" where
  "exn_kind (ValueError m) = ''ValueError''"
| "exn_kind (IndexError m) = ''IndexError''"
| "exn_kind (Exception m) = ''Exception''"

fun str :: "py_exception \<Rightarrow> string" where
  "str (ValueError m) = m"
| "str (IndexError m) = m"
| "str (Exception m) = m"


section \<open>Parameter estimation: \<^verbatim>\<open>fetch_crypto_data\<close>, lines 38 to 60\<close>

text \<open>
  The argument \<open>close\<close> is the column \<^verbatim>\<open>df['close']\<close> after the download and the date
  filter (lines 21 to 35, the market-data collaborator): a list of finite prices.

  \<^verbatim>\<open>pct_change\<close> gives one entry per price: NaN for the first, then
  \<^verbatim>\<open>close[t] / close[t-1] - 1\<close>. \<^verbatim>\<open>dropna\<close> removes the NaN entries (the first one, and
  any 0/0) and keeps the infinities.
\<close>

definition pct :: "real \<Rightarrow> real \<Rightarrow> fp" where
  "pct prev cur = fsub (fdiv (Fin cur) (Fin prev)) (Fin 1)"

fun pct_change :: "real list \<Rightarrow> fp list" where
  "pct_change [] = []"
| "pct_change (p # ps) = NaN # map (\<lambda>(prev, cur). pct prev cur) (zip (p # ps) ps)"

definition dropna :: "fp list \<Rightarrow> fp list" where
  "dropna xs = filter (\<lambda>x. \<not> isnan x) xs"

text \<open>
  \<^verbatim>\<open>Series.mean\<close> is the sum over the count. \<^verbatim>\<open>Series.std\<close> is the sample standard
  deviation (\<^verbatim>\<open>ddof=1\<close>) in two passes: the mean first, then the squared deviations from
  it, summed and divided by the count less one; NaN when the count is at most one.
\<close>

definition series_mean :: "fp list \<Rightarrow> fp" where
  "series_mean xs = fdiv (fsum xs) (Fin (real (length xs)))"

definition series_std :: "fp list \<Rightarrow> fp" where
  "series_std xs =
     (if length xs \<le> 1 then NaN
      else
        let avg = series_mean xs;
            sqr = map (\<lambda>v. let d = fsub avg v in fmul d d) xs
        in fsqrt (fdiv (fsum sqr) (Fin (real (length xs) - 1))))"

definition fetch_crypto_data_body :: "real list \<Rightarrow> py_exception + (real \<times> fp \<times> fp)" where
  "fetch_crypto_data_body close =
     (let daily_returns = dropna (pct_change close) in
      if length daily_returns < 2
      then Inl (ValueError ''Insufficient data points to calculate returns'')
      else
        let mu = fmul (series_mean daily_returns) (Fin 365);
            sigma = fmul (series_std daily_returns) (Fin (sqrt 365));
            initial_price = last close
        in if initial_price \<le> 0 then Inl (ValueError ''Invalid initial price'')
           else if isnan mu \<or> isnan sigma
           then Inl (ValueError ''NaN detected in mu or sigma'')
           else Inr (initial_price, mu, sigma))"

definition fetch_crypto_data :: "real list \<Rightarrow> py_exception + (real \<times> fp \<times> fp)" where
  "fetch_crypto_data close =
     (case fetch_crypto_data_body close of
        Inl e \<Rightarrow> Inl (Exception (''Error in fetch_crypto_data: '' @ str e))
      | Inr r \<Rightarrow> Inr r)"

section \<open>Simulation: \<^verbatim>\<open>simulate_crypto_prices\<close>, lines 62 to 80\<close>

subsection \<open>The random generator\<close>

text \<open>
  \<^verbatim>\<open>np.random.normal\<close> reads and advances numpy's global generator. Its state is
  modelled by what it holds: the sequence of standard normal variates it will hand out
  next. A call for an array of shape \<open>(rows, cols)\<close> takes \<open>rows * cols\<close> of them, fills
  the array row by row with \<open>loc + scale * variate\<close>, and leaves the rest of the sequence
  as the new state. It raises \<^verbatim>\<open>ValueError\<close> for a negative scale and for a negative
  dimension. The arguments of \<^verbatim>\<open>simulate_crypto_prices\<close> are taken to be finite floats.
\<close>

type_synonym rng = "nat \<Rightarrow> real"

definition np_random_normal ::
  "real \<Rightarrow> real \<Rightarrow> int \<Rightarrow> int \<Rightarrow> rng \<Rightarrow> py_exception + (real list list \<times> rng)" where
  "np_random_normal loc scale rows cols g =
     (if scale < 0 then Inl (ValueError ''scale < 0'')
      else if rows < 0 \<or> cols < 0 then Inl (ValueError ''negative dimensions are not allowed'')
      else Inr (map (\<lambda>i. map (\<lambda>t. loc + scale * g (i * nat cols + t)) [0..<nat cols])
                    [0..<nat rows],
                \<lambda>n. g (n + nat rows * nat cols)))"

subsection \<open>The price paths\<close>

text \<open>Line 65: the daily time step in years.\<close>

definition dt :: real where
  "dt = 1 / 365"

definition np_zeros :: "int \<Rightarrow> int \<Rightarrow> real list list" where
  "np_zeros rows cols = replicate (nat rows) (replicate (nat cols) 0)"

text \<open>
  \<^verbatim>\<open>price_paths[:, 0] = initial_price\<close> raises \<^verbatim>\<open>IndexError\<close> on an array without
  columns, whatever the number of rows.
\<close>

definition set_first_column :: "real \<Rightarrow> int \<Rightarrow> real list list \<Rightarrow> py_exception + real list list" where
  "set_first_column v cols P =
     (if cols = 0 then Inl (IndexError ''index 0 is out of bounds for axis 1 with size 0'')
      else Inr (map (\<lambda>row. row[0 := v]) P))"

text \<open>
  One turn of the loop of lines 70 and 71:
  \<^verbatim>\<open>price_paths[:, t] = price_paths[:, t-1] * np.exp(daily_returns[:, t])\<close>,
  for every row at once.
\<close>

definition update_column :: "real list list \<Rightarrow> real list list \<Rightarrow> nat \<Rightarrow> real list list" where
  "update_column daily_returns P t =
     map (\<lambda>(row, z). row[t := row ! (t - 1) * exp (z ! t)]) (zip P daily_returns)"

definition gbm_loop :: "real list list \<Rightarrow> nat \<Rightarrow> real list list \<Rightarrow> real list list" where
  "gbm_loop daily_returns days P = foldl (update_column daily_returns) P [1..<days]"

subsection \<open>Median and percentiles\<close>

text \<open>
  \<^verbatim>\<open>np.median\<close> sorts and takes the middle value, or the mean of the two middle values;
  on an empty array it returns NaN (with a warning, no exception).

  \<^verbatim>\<open>np.percentile\<close> with its default method (linear): on the sorted values, the virtual
  index is \<open>(n - 1) * q / 100\<close>; the result interpolates between the values at the index
  below it and at the next one (the last value at most). It raises \<^verbatim>\<open>ValueError\<close> for
  \<open>q\<close> outside 0 to 100 and fails on an empty array, where it has nothing to index. The
  class and the message of that failure depend on the numpy release; line 80 raises a
  plain \<^verbatim>\<open>Exception\<close> in its place, and no property below depends on the message.
\<close>

definition np_median :: "real list \<Rightarrow> fp" where
  "np_median a =
     (if a = [] then NaN
      else
        let s = sort a; n = length a; index = n div 2
        in if n mod 2 = 1 then Fin (s ! index)
           else Fin ((s ! (index - 1) + s ! index) / 2))"

definition np_percentile :: "real list \<Rightarrow> real \<Rightarrow> py_exception + fp" where
  "np_percentile a q =
     (if q < 0 \<or> 100 < q then Inl (ValueError ''Percentiles must be in the range [0, 100]'')
      else if a = [] then Inl (IndexError ''index -1 is out of bounds for axis 0 with size 0'')
      else
        let s = sort a; n = length a;
            virtual_index = (real n - 1) * (q / 100);
            previous_index = nat \<lfloor>virtual_index\<rfloor>;
            next_index = min (previous_index + 1) (n - 1);
            gamma = virtual_index - real previous_index
        in Inr (Fin (s ! previous_index + (s ! next_index - s ! previous_index) * gamma)))"

subsection \<open>The function\<close>

text \<open>
  The result is the tuple of line 78 with the generator's new state. Every path that
  raises does so with no variate taken (a dimension is negative or zero), so an
  exception leaves the generator as it was.
\<close>

definition simulate_crypto_prices_body ::
  "real \<Rightarrow> real \<Rightarrow> real \<Rightarrow> int \<Rightarrow> int \<Rightarrow> rng \<Rightarrow>
   py_exception + ((real list list \<times> fp \<times> fp \<times> fp) \<times> rng)" where
  "simulate_crypto_prices_body initial_price mu sigma days sims g =
     (case np_random_normal (mu * dt) (sigma * sqrt dt) sims days g of
        Inl e \<Rightarrow> Inl e
      | Inr (daily_returns, g') \<Rightarrow>
          (case set_first_column initial_price days (np_zeros sims days) of
             Inl e \<Rightarrow> Inl e
           | Inr P0 \<Rightarrow>
               let price_paths = gbm_loop daily_returns (nat days) P0;
                   final_prices = map last price_paths;
                   median_price = np_median final_prices
               in (case np_percentile final_prices 2.5 of
                     Inl e \<Rightarrow> Inl e
                   | Inr ci_lower \<Rightarrow>
                       (case np_percentile final_prices 97.5 of
                          Inl e \<Rightarrow> Inl e
                        | Inr ci_upper \<Rightarrow>
                            Inr ((price_paths, median_price, ci_lower, ci_upper), g')))))"

definition simulate_crypto_prices ::
  "real \<Rightarrow> real \<Rightarrow> real \<Rightarrow> int \<Rightarrow> int \<Rightarrow> rng \<Rightarrow>
   py_exception + ((real list list \<times> fp \<times> fp \<times> fp) \<times> rng)" where
  "simulate_crypto_prices initial_price mu sigma days sims g =
     (case simulate_crypto_prices_body initial_price mu sigma days sims g of
        Inl e \<Rightarrow> Inl (Exception (''Error in simulate_crypto_prices: '' @ str e))
      | Inr r \<Rightarrow> Inr r)"

section \<open>The specification's formulas\<close>




text \<open>
  Section 4.3: the median of a column, and its percentile by linear interpolation: with
  the values sorted and \<open>h = (n - 1) * q / 100\<close>, the value at \<open>\<lfloor>h\<rfloor>\<close> plus the fraction
  \<open>h - \<lfloor>h\<rfloor>\<close> of the step to the value at \<open>\<lceil>h\<rceil>\<close>.
\<close>

definition column :: "nat \<Rightarrow> real list list \<Rightarrow> real list" where
  "column t P = map (\<lambda>row. row ! t) P"

definition median :: "real list \<Rightarrow> real" where
  "median a =
     (let s = sort a; n = length a
      in if odd n then s ! (n div 2) else (s ! (n div 2 - 1) + s ! (n div 2)) / 2)"

definition linear_percentile :: "real list \<Rightarrow> real \<Rightarrow> real" where
  "linear_percentile a q =
     (let s = sort a; h = (real (length a) - 1) * q / 100;
          lo = nat \<lfloor>h\<rfloor>; hi = nat \<lceil>h\<rceil>
      in s ! lo + (h - real lo) * (s ! hi - s ! lo))"

section \<open>Auxiliary definitions\<close>

text \<open>The loop of lines 70 and 71 on one row, and the array of line 66 for valid arguments.\<close>

definition row_step :: "real list \<Rightarrow> real list \<Rightarrow> nat \<Rightarrow> real list" where
  "row_step z row t = row[t := row ! (t - 1) * exp (z ! t)]"

definition draws :: "real \<Rightarrow> real \<Rightarrow> int \<Rightarrow> int \<Rightarrow> rng \<Rightarrow> real list list" where
  "draws mu sigma days sims g =
     map (\<lambda>i. map (\<lambda>t. mu * dt + sigma * sqrt dt * g (i * nat days + t)) [0..<nat days])
         [0..<nat sims]"

text \<open>The value of \<^verbatim>\<open>price_paths\<close> when the loop is done.\<close>

definition ensemble :: "real \<Rightarrow> real \<Rightarrow> real \<Rightarrow> int \<Rightarrow> int \<Rightarrow> rng \<Rightarrow> real list list" where
  "ensemble initial_price mu sigma days sims g =
     gbm_loop (draws mu sigma days sims g) (nat days)
       (map (\<lambda>row. row[0 := initial_price]) (np_zeros sims days))"

section \<open>Properties of the parameter estimation\<close>

subsection \<open>Finite returns\<close>













subsection \<open>Constant series\<close>

lemma pct_same: "c \<noteq> 0 \<Longrightarrow> pct c c = Fin 0"
  by (simp add: pct_def fsub_def)

lemma zip_replicate_tl: "zip (c # replicate k c) (replicate k c) = replicate k (c, c)"
  by (induction k) simp_all

lemma pct_change_replicate:
  "c \<noteq> 0 \<Longrightarrow> pct_change (replicate (Suc k) c) = NaN # replicate k (Fin 0)"
  by (simp add: zip_replicate_tl pct_same)

lemma dropna_constant:
  "c \<noteq> 0 \<Longrightarrow> dropna (pct_change (replicate (Suc k) c)) = replicate k (Fin 0)"
  by (simp add: pct_change_replicate dropna_def del: replicate.simps)

lemma fsum_replicate_zero: "fsum (replicate k (Fin 0)) = Fin 0"
  by (induction k) (simp_all add: fsum_def)

lemma series_mean_zero: "0 < k \<Longrightarrow> series_mean (replicate k (Fin 0)) = Fin 0"
  by (simp add: series_mean_def fsum_replicate_zero)

lemma series_std_zero: "2 \<le> k \<Longrightarrow> series_std (replicate k (Fin 0)) = Fin 0"
  by (simp add: series_std_def series_mean_zero fsum_replicate_zero fsub_def
      map_replicate_const)

text \<open>
  Claim C8. For every constant price series of length at least 3 with a positive value,
  \<^verbatim>\<open>fetch_crypto_data\<close> raises nothing and returns \<open>mu = 0\<close> and \<open>sigma = 0\<close>.
\<close>

theorem constant_series:
  assumes "3 \<le> n" and "0 < c"
  shows "fetch_crypto_data (replicate n c) = Inr (c, Fin 0, Fin 0)"
proof -
  from assms(1) obtain k where n: "n = Suc k" and k: "2 \<le> k"
    by (cases n) auto
  have d: "dropna (pct_change (replicate n c)) = replicate k (Fin 0)"
    using assms(2) by (simp add: n dropna_constant del: replicate.simps)
  have l: "last (replicate n c) = c"
    by (simp add: n)
  show ?thesis
    using k assms(2)
    by (simp add: fetch_crypto_data_def fetch_crypto_data_body_def d l
        series_mean_zero series_std_zero Let_def)
qed

text \<open>
  The theorem at the series 100, 100, 100, 100 of the specification.
\<close>

theorem constant_series_witness:
  "fetch_crypto_data [100, 100, 100, 100] = Inr (100, Fin 0, Fin 0)"
  using constant_series [of 4 100] by (simp add: numeral_eq_Suc)

subsection \<open>The NaN guard\<close>

text \<open>
  Claim C7, as amended. Whenever the drift or the volatility computed on lines 46 and 47
  is NaN, \<^verbatim>\<open>fetch_crypto_data\<close> raises, and what it raises is a plain \<^verbatim>\<open>Exception\<close>;
  hence the \<open>mu\<close> and \<open>sigma\<close> it returns are never NaN. The guard of line 55 is
  \<^verbatim>\<open>np.isnan\<close> alone: it does not test for infinities.
\<close>

theorem nan_guard:
  "(isnan (fmul (series_mean (dropna (pct_change close))) (Fin 365)) \<or>
    isnan (fmul (series_std (dropna (pct_change close))) (Fin (sqrt 365))) \<longrightarrow>
      (\<exists>m. fetch_crypto_data close = Inl (Exception m))) \<and>
   (\<forall>p mu sigma. fetch_crypto_data close = Inr (p, mu, sigma) \<longrightarrow>
      \<not> isnan mu \<and> \<not> isnan sigma)"
  by (auto simp: fetch_crypto_data_def fetch_crypto_data_body_def Let_def
      split: sum.splits if_splits)

text \<open>
  The theorem at two series: 1, 0, 1, 1 has an infinite return, hence a NaN volatility,
  and raises; 1, 2, 4 returns values that are not NaN.
\<close>

theorem nan_guard_witness:
  "(isnan (fmul (series_std (dropna (pct_change [1, 0, 1, 1]))) (Fin (sqrt 365))) \<and>
    (\<exists>m. fetch_crypto_data [1, 0, 1, 1] = Inl (Exception m))) \<and>
   (fetch_crypto_data [1, 2, 4] = Inr (4, Fin 365, Fin 0) \<and>
    \<not> isnan (Fin 365) \<and> \<not> isnan (Fin 0))"
proof -
  have n: "isnan (fmul (series_std (dropna (pct_change [1, 0, 1, 1]))) (Fin (sqrt 365)))"
    by (simp add: dropna_def pct_def fsub_def series_mean_def series_std_def fsum_def
        inf_times_def Let_def)
  have v: "fetch_crypto_data [1, 2, 4] = Inr (4, Fin 365, Fin 0)"
    by (simp add: fetch_crypto_data_def fetch_crypto_data_body_def dropna_def pct_def fsub_def
        series_mean_def series_std_def fsum_def Let_def)
  from nan_guard [of "[1, 0, 1, 1]"] nan_guard [of "[1, 2, 4]"] n v show ?thesis
    by blast
qed

text \<open>
  Claim C7 as stated fails at the series 1, 0, 1, 1: the volatility is NaN and the
  exception raised is a plain \<^verbatim>\<open>Exception\<close>, not a \<^verbatim>\<open>NumericalError\<close>.
\<close>

theorem nan_sigma_kind:
  "fetch_crypto_data [1, 0, 1, 1] =
     Inl (Exception ''Error in fetch_crypto_data: NaN detected in mu or sigma'') \<and>
   exn_kind (Exception ''Error in fetch_crypto_data: NaN detected in mu or sigma'')
     \<noteq> ''NumericalError''"
  by (simp add: fetch_crypto_data_def fetch_crypto_data_body_def dropna_def pct_def fsub_def
      series_mean_def series_std_def fsum_def inf_times_def Let_def)

section \<open>Properties of the simulation\<close>

subsection \<open>The loop, row by row\<close>

lemma update_column_rows:
  "update_column Z P t = map (\<lambda>(row, z). row_step z row t) (zip P Z)"
  by (simp add: update_column_def row_step_def)

lemma foldl_update_column:
  "length P = length Z \<Longrightarrow>
   foldl (update_column Z) P ts = map (\<lambda>(row, z). foldl (row_step z) row ts) (zip P Z)"
proof (induction ts arbitrary: P)
  case Nil
  then show ?case by (simp add: map_fst_zip [symmetric] split_def del: map_fst_zip)
next
  case (Cons t ts)
  have len: "length (update_column Z P t) = length Z"
    using Cons.prems by (simp add: update_column_rows)
  have "zip (update_column Z P t) Z = map (\<lambda>(row, z). (row_step z row t, z)) (zip P Z)"
    using Cons.prems
    by (intro nth_equalityI) (simp_all add: update_column_rows)
  then show ?case
    by (simp add: Cons.IH [OF len] split_def o_def)
qed

lemma gbm_loop_rows:
  "length P = length Z \<Longrightarrow>
   gbm_loop Z days P = map (\<lambda>(row, z). foldl (row_step z) row [1..<days]) (zip P Z)"
  by (simp add: gbm_loop_def foldl_update_column)

lemma length_row_loop: "length (foldl (row_step z) row ts) = length row"
  by (induction ts arbitrary: row) (simp_all add: row_step_def)

text \<open>
  The invariant of the loop on one row: after the turns \<open>1, \<dots>, k - 1\<close> the recurrence
  holds below \<open>k\<close>, and the entry 0 and the entries from \<open>k\<close> on are untouched.
\<close>

lemma row_loop_invariant:
  "k \<le> length row \<Longrightarrow>
   (\<forall>t. 1 \<le> t \<and> t < k \<longrightarrow>
      foldl (row_step z) row [1..<k] ! t
        = foldl (row_step z) row [1..<k] ! (t - 1) * exp (z ! t)) \<and>
   (\<forall>t. (t = 0 \<or> k \<le> t) \<longrightarrow> foldl (row_step z) row [1..<k] ! t = row ! t)"
proof (induction k)
  case 0
  then show ?case by simp
next
  case (Suc k)
  show ?case
  proof (cases "k = 0")
    case True
    then show ?thesis by simp
  next
    case False
    define r where "r = foldl (row_step z) row [1..<k]"
    from False have unfold: "foldl (row_step z) row [1..<Suc k] = row_step z r k"
      by (simp add: r_def)
    from Suc.prems have "k \<le> length row" by simp
    note IH = Suc.IH [OF this, folded r_def]
    from IH have IH1: "\<And>t. 1 \<le> t \<Longrightarrow> t < k \<Longrightarrow> r ! t = r ! (t - 1) * exp (z ! t)"
      by blast
    from IH have IH2: "\<And>t. t = 0 \<or> k \<le> t \<Longrightarrow> r ! t = row ! t"
      by blast
    have len: "length r = length row"
      by (simp add: r_def length_row_loop)
    with Suc.prems have k: "k < length r" by simp
    have a: "row_step z r k ! t = row_step z r k ! (t - 1) * exp (z ! t)"
      if "1 \<le> t" "t < Suc k" for t
    proof (cases "t = k")
      case True
      with False k show ?thesis by (simp add: row_step_def)
    next
      case False
      with that have "t < k" by simp
      with that(1) IH1 [of t] show ?thesis by (simp add: row_step_def)
    qed
    have b: "row_step z r k ! t = row ! t" if "t = 0 \<or> Suc k \<le> t" for t
      using that False IH2 [of t] by (auto simp: row_step_def)
    from a b show ?thesis
      unfolding unfold by blast
  qed
qed

subsection \<open>The ensemble\<close>

lemma length_draws: "length (draws mu sigma days sims g) = nat sims"
  by (simp add: draws_def)

lemma length_np_zeros: "length (np_zeros sims days) = nat sims"
  by (simp add: np_zeros_def)

lemma ensemble_rows:
  "ensemble p mu sigma days sims g =
     map (\<lambda>i. foldl (row_step (draws mu sigma days sims g ! i))
                 ((replicate (nat days) 0)[0 := p]) [1..<nat days])
         [0..<nat sims]"
proof -
  have "length (map (\<lambda>row. row[0 := p]) (np_zeros sims days))
      = length (draws mu sigma days sims g)"
    by (simp add: length_draws length_np_zeros)
  then show ?thesis
    unfolding ensemble_def
    by (subst gbm_loop_rows) (auto intro!: nth_equalityI simp: length_draws np_zeros_def)
qed

lemma length_ensemble: "length (ensemble p mu sigma days sims g) = nat sims"
  by (simp add: ensemble_rows)

lemma length_ensemble_row:
  "i < nat sims \<Longrightarrow> length (ensemble p mu sigma days sims g ! i) = nat days"
  by (simp add: ensemble_rows length_row_loop)

lemma draws_nth:
  "i < nat sims \<Longrightarrow> t < nat days \<Longrightarrow>
   draws mu sigma days sims g ! i ! t = mu * dt + sigma * sqrt dt * g (i * nat days + t)"
  by (simp add: draws_def)

lemma ensemble_first:
  assumes "i < nat sims" and "0 < days"
  shows "ensemble p mu sigma days sims g ! i ! 0 = p"
proof -
  have "foldl (row_step z) ((replicate (nat days) 0)[0 := p]) [1..<nat days] ! 0
      = (replicate (nat days) 0)[0 := p] ! 0" for z
    using row_loop_invariant [of "nat days" "(replicate (nat days) 0)[0 := p]" z] by simp
  with assms show ?thesis
    by (simp add: ensemble_rows)
qed

lemma ensemble_step:
  assumes "i < nat sims" and "1 \<le> t" and "t < nat days"
  shows "ensemble p mu sigma days sims g ! i ! t =
         ensemble p mu sigma days sims g ! i ! (t - 1) *
           exp (mu * dt + sigma * sqrt dt * g (i * nat days + t))"
proof -
  define z where "z = draws mu sigma days sims g ! i"
  have "foldl (row_step z) ((replicate (nat days) 0)[0 := p]) [1..<nat days] ! t
      = foldl (row_step z) ((replicate (nat days) 0)[0 := p]) [1..<nat days] ! (t - 1)
          * exp (z ! t)"
    using row_loop_invariant [of "nat days" "(replicate (nat days) 0)[0 := p]" z] assms(2,3)
    by simp
  with assms show ?thesis
    by (simp add: ensemble_rows z_def draws_nth)
qed


lemma last_column:
  assumes "0 < days"
  shows "map last (ensemble p mu sigma days sims g) =
         column (nat days - 1) (ensemble p mu sigma days sims g)"
proof -
  have "last row = row ! (nat days - 1)" if "row \<in> set (ensemble p mu sigma days sims g)" for row
  proof -
    from that obtain i where "i < nat sims" and "row = ensemble p mu sigma days sims g ! i"
      by (auto simp: in_set_conv_nth length_ensemble)
    then have "length row = nat days"
      by (simp add: length_ensemble_row)
    with assms show ?thesis
      by (cases row rule: rev_cases) (auto simp: nth_append)
  qed
  then show ?thesis
    by (simp add: column_def)
qed

subsection \<open>numpy's median and percentile are the specification's\<close>

lemma np_median_median: "a \<noteq> [] \<Longrightarrow> np_median a = Fin (median a)"
  by (simp add: np_median_def median_def Let_def odd_iff_mod_2_eq_one)

lemma virtual_index_bounds:
  assumes "a \<noteq> []" and "0 \<le> q" and "q \<le> 100"
  shows "0 \<le> (real (length a) - 1) * q / 100"
    and "(real (length a) - 1) * q / 100 \<le> real (length a) - 1"
proof -
  from assms(1) have n: "0 \<le> real (length a) - 1"
    by (cases a) simp_all
  with assms(2) show "0 \<le> (real (length a) - 1) * q / 100" by simp
  have "(real (length a) - 1) * q \<le> (real (length a) - 1) * 100"
    using n assms(3) by (rule mult_left_mono [rotated])
  then show "(real (length a) - 1) * q / 100 \<le> real (length a) - 1" by simp
qed

lemma np_percentile_linear:
  assumes "a \<noteq> []" and "0 \<le> q" and "q \<le> 100"
  shows "np_percentile a q = Inr (Fin (linear_percentile a q))"
proof -
  define h where "h = (real (length a) - 1) * q / 100"
  define s where "s = sort a"
  note b = virtual_index_bounds [OF assms, folded h_def]
  have np: "np_percentile a q =
      Inr (Fin (s ! nat \<lfloor>h\<rfloor> + (s ! min (nat \<lfloor>h\<rfloor> + 1) (length a - 1) - s ! nat \<lfloor>h\<rfloor>)
                 * (h - real (nat \<lfloor>h\<rfloor>))))"
    using assms by (simp add: np_percentile_def Let_def h_def s_def)
  have lp: "linear_percentile a q =
      s ! nat \<lfloor>h\<rfloor> + (h - real (nat \<lfloor>h\<rfloor>)) * (s ! nat \<lceil>h\<rceil> - s ! nat \<lfloor>h\<rfloor>)"
    by (simp add: linear_percentile_def Let_def h_def s_def)
  show ?thesis
  proof (cases "h \<in> \<int>")
    case True
    with b(1) have "h - real (nat \<lfloor>h\<rfloor>) = 0"
      by (auto elim!: Ints_cases)
    then show ?thesis by (simp add: np lp)
  next
    case False
    then have "h \<noteq> of_int \<lfloor>h\<rfloor>"
      by (metis Ints_of_int)
    then have c: "\<lceil>h\<rceil> = \<lfloor>h\<rfloor> + 1"
      by (simp add: ceiling_altdef)
    from False b(2) have "h < real (length a) - 1"
      by (cases "h = real (length a) - 1") (auto simp: Ints_diff)
    then have "\<lfloor>h\<rfloor> < int (length a) - 1"
      by (simp add: floor_less_iff)
    moreover from b(1) have "0 \<le> \<lfloor>h\<rfloor>" by simp
    ultimately have "nat \<lfloor>h\<rfloor> + 1 \<le> length a - 1" by linarith
    then have "min (nat \<lfloor>h\<rfloor> + 1) (length a - 1) = nat \<lceil>h\<rceil>"
      using c \<open>0 \<le> \<lfloor>h\<rfloor>\<close> by (simp add: nat_add_distrib)
    then show ?thesis by (simp add: np lp)
  qed
qed

subsection \<open>What the function returns, and when it raises\<close>

lemma scale_negative_iff: "sigma * sqrt dt < 0 \<longleftrightarrow> sigma < 0"
  by (simp add: dt_def mult_less_0_iff)

lemma np_random_normal_draws:
  assumes "0 \<le> sigma" and "0 \<le> days" and "0 \<le> sims"
  shows "np_random_normal (mu * dt) (sigma * sqrt dt) sims days g =
         Inr (draws mu sigma days sims g, \<lambda>n. g (n + nat sims * nat days))"
  using assms by (simp add: np_random_normal_def scale_negative_iff draws_def)

lemma simulate_crypto_prices_body_valid:
  assumes "0 \<le> sigma" and "0 < days" and "0 < sims"
  shows "simulate_crypto_prices_body p mu sigma days sims g =
         Inr ((ensemble p mu sigma days sims g,
               Fin (median (column (nat days - 1) (ensemble p mu sigma days sims g))),
               Fin (linear_percentile (column (nat days - 1) (ensemble p mu sigma days sims g)) 2.5),
               Fin (linear_percentile (column (nat days - 1) (ensemble p mu sigma days sims g)) 97.5)),
              \<lambda>n. g (n + nat sims * nat days))"
proof -
  define E where "E = ensemble p mu sigma days sims g"
  define f where "f = column (nat days - 1) E"
  have rn: "np_random_normal (mu * dt) (sigma * sqrt dt) sims days g =
      Inr (draws mu sigma days sims g, \<lambda>n. g (n + nat sims * nat days))"
    using assms by (intro np_random_normal_draws) simp_all
  have sc: "set_first_column p days (np_zeros sims days) =
      Inr (map (\<lambda>row. row[0 := p]) (np_zeros sims days))"
    using assms(2) by (simp add: set_first_column_def)
  have fl: "map last E = f"
    using assms(2) by (simp add: E_def f_def last_column)
  have "length f = nat sims"
    by (simp add: f_def column_def E_def length_ensemble)
  with assms(3) have ne: "f \<noteq> []" by auto
  have md: "np_median f = Fin (median f)"
    using ne by (rule np_median_median)
  have p1: "np_percentile f 2.5 = Inr (Fin (linear_percentile f 2.5))"
    using ne by (rule np_percentile_linear) simp_all
  have p2: "np_percentile f 97.5 = Inr (Fin (linear_percentile f 97.5))"
    using ne by (rule np_percentile_linear) simp_all
  have "simulate_crypto_prices_body p mu sigma days sims g =
      (case np_percentile (map last E) 2.5 of
         Inl e \<Rightarrow> Inl e
       | Inr ci_lower \<Rightarrow>
           (case np_percentile (map last E) 97.5 of
              Inl e \<Rightarrow> Inl e
            | Inr ci_upper \<Rightarrow>
                Inr ((E, np_median (map last E), ci_lower, ci_upper),
                     \<lambda>n. g (n + nat sims * nat days))))"
    unfolding simulate_crypto_prices_body_def rn sc E_def ensemble_def Let_def
    by (simp only: sum.case prod.case)
  also have "\<dots> = Inr ((E, Fin (median f), Fin (linear_percentile f 2.5),
      Fin (linear_percentile f 97.5)), \<lambda>n. g (n + nat sims * nat days))"
    unfolding fl md p1 p2 by (simp only: sum.case)
  finally show ?thesis
    unfolding f_def E_def .
qed

lemma simulate_crypto_prices_valid:
  assumes "0 \<le> sigma" and "0 < days" and "0 < sims"
  shows "simulate_crypto_prices p mu sigma days sims g =
         Inr ((ensemble p mu sigma days sims g,
               Fin (median (column (nat days - 1) (ensemble p mu sigma days sims g))),
               Fin (linear_percentile (column (nat days - 1) (ensemble p mu sigma days sims g)) 2.5),
               Fin (linear_percentile (column (nat days - 1) (ensemble p mu sigma days sims g)) 97.5)),
              \<lambda>n. g (n + nat sims * nat days))"
  by (simp add: simulate_crypto_prices_def simulate_crypto_prices_body_valid [OF assms])




subsection \<open>Zero drift and zero volatility\<close>

lemma ensemble_constant_entry:
  assumes "0 < days" and "i < nat sims" and "t < nat days"
  shows "ensemble p 0 0 days sims g ! i ! t = p"
  using assms(3)
proof (induction t)
  case 0
  with assms show ?case by (simp add: ensemble_first)
next
  case (Suc t)
  then have "ensemble p 0 0 days sims g ! i ! t = p" by simp
  with ensemble_step [OF assms(2) _ Suc.prems, of p 0 0 g] show ?case by simp
qed

lemma ensemble_constant:
  assumes "0 < days"
  shows "ensemble p 0 0 days sims g = replicate (nat sims) (replicate (nat days) p)"
proof (rule nth_equalityI)
  show "length (ensemble p 0 0 days sims g) = length (replicate (nat sims) (replicate (nat days) p))"
    by (simp add: length_ensemble)
next
  fix i
  assume "i < length (ensemble p 0 0 days sims g)"
  then have i: "i < nat sims" by (simp add: length_ensemble)
  have "ensemble p 0 0 days sims g ! i = replicate (nat days) p"
    using assms i
    by (intro nth_equalityI) (simp_all add: length_ensemble_row ensemble_constant_entry)
  with i show "ensemble p 0 0 days sims g ! i = replicate (nat sims) (replicate (nat days) p) ! i"
    by simp
qed

lemma column_replicate:
  "t < d \<Longrightarrow> column t (replicate n (replicate d p)) = replicate n p"
  by (simp add: column_def)

lemma sort_replicate: "sort (replicate n (p::real)) = replicate n p"
  by (simp add: sorted_sort_id)

lemma median_replicate: "0 < n \<Longrightarrow> median (replicate n p) = p"
  by (simp add: median_def sort_replicate Let_def)

lemma linear_percentile_replicate:
  assumes "0 < n" and "0 \<le> q" and "q \<le> 100"
  shows "linear_percentile (replicate n p) q = p"
proof -
  define h where "h = (real n - 1) * q / 100"
  from assms(1) have ne: "replicate n p \<noteq> []" by auto
  from virtual_index_bounds [OF ne assms(2,3)]
  have b: "0 \<le> h" "h \<le> real n - 1" by (simp_all add: h_def)
  from b(2) have "h \<le> of_int (int n - 1)" by simp
  then have "\<lceil>h\<rceil> \<le> int n - 1"
    by (rule ceiling_le)
  with assms(1) have hi: "nat \<lceil>h\<rceil> < n" by linarith
  have "\<lfloor>h\<rfloor> \<le> \<lceil>h\<rceil>" by (rule floor_le_ceiling)
  with hi have lo: "nat \<lfloor>h\<rfloor> < n" by linarith
  show ?thesis
    using hi lo by (simp add: linear_percentile_def sort_replicate Let_def h_def [symmetric])
qed

lemma simulate_crypto_prices_constant:
  assumes "0 < days" and "0 < sims"
  shows "simulate_crypto_prices p 0 0 days sims g =
         Inr ((replicate (nat sims) (replicate (nat days) p), Fin p, Fin p, Fin p),
              \<lambda>n. g (n + nat sims * nat days))"
proof -
  have c: "column (nat days - 1) (replicate (nat sims) (replicate (nat days) p))
      = replicate (nat sims) p"
    using assms(1) by (intro column_replicate) simp
  have m: "median (replicate (nat sims) p) = p"
    using assms(2) by (intro median_replicate) simp
  have l: "linear_percentile (replicate (nat sims) p) 2.5 = p"
    using assms(2) by (intro linear_percentile_replicate) simp_all
  have u: "linear_percentile (replicate (nat sims) p) 97.5 = p"
    using assms(2) by (intro linear_percentile_replicate) simp_all
  have "(0::real) \<le> 0" by simp
  from simulate_crypto_prices_valid [OF this assms, of p 0 g] show ?thesis
    unfolding ensemble_constant [OF assms(1)] c m l u .
qed

subsection \<open>The claims about the simulation\<close>







text \<open>
  Claim C9. For \<open>initial_price = 100\<close>, \<open>mu = 0\<close>, \<open>sigma = 0\<close>, 30 days and 1000 paths,
  whatever the generator holds, every entry of the ensemble is exactly 100 (and so are
  the median and both percentiles).
\<close>

theorem zero_drift_zero_volatility:
  "simulate_crypto_prices 100 0 0 30 1000 g =
     Inr ((replicate 1000 (replicate 30 100), Fin 100, Fin 100, Fin 100),
          \<lambda>n. g (n + 30000))"
  using simulate_crypto_prices_constant [of 30 1000 100 g] by simp








section \<open>Error kinds\<close>








end
